theory Spec2Isabelle
  imports Main "HOL-Library.Sublist"
begin

section \<open>Values of the host language\<close>

text \<open>
  The action is one JavaScript file, \<^verbatim>\<open>dist/main.js\<close>, with two functions:
  \<^verbatim>\<open>lint\<close> (lines 9-51) and \<^verbatim>\<open>run\<close> (lines 52-176). Strings are
  \<^typ>\<open>string\<close>, numbers that the code only compares, indexes with and prints are
  \<^typ>\<open>int\<close> or \<^typ>\<open>nat\<close>, and a value that may be absent is an
  \<^typ>\<open>'a option\<close> with \<^term>\<open>None\<close> for \<^verbatim>\<open>undefined\<close>. A thrown exception
  is a value of \<open>js_error\<close>, and a call that may throw returns \<open>js_error + 'a\<close>.
  The environment variables of line 6 are taken as set, as the TypeScript source of the
  file asserts; time stamps are left out of the requests. A \<^typ>\<open>char\<close> is a code
  unit below 256, read as in Latin-1: strings with other characters are outside the model.
\<close>

datatype js_error = Error (error_message: string)

text \<open>Truthiness, as \<^verbatim>\<open>if (x)\<close>, \<^verbatim>\<open>x || y\<close> and \<^verbatim>\<open>x ? a : b\<close> test it.\<close>

definition truthy_string :: "string \<Rightarrow> bool" where
  "truthy_string s \<longleftrightarrow> s \<noteq> []"

definition truthy_id :: "nat option \<Rightarrow> bool" where
  "truthy_id x = (case x of None \<Rightarrow> False | Some v \<Rightarrow> v \<noteq> 0)"

text \<open>\<^verbatim>\<open>x || d\<close> on optional numbers: \<^verbatim>\<open>undefined\<close> and \<^verbatim>\<open>0\<close> both give \<open>d\<close>.\<close>

definition number_or :: "int option \<Rightarrow> int option \<Rightarrow> int option" where
  "number_or x d = (case x of None \<Rightarrow> d | Some v \<Rightarrow> if v \<noteq> 0 then Some v else d)"

text \<open>
  A rule id is a string, \<^verbatim>\<open>null\<close> (a parsing error) or left out (a message about a
  whole file). The two absent values are both falsy and print differently.
\<close>

datatype rule_id = Undefined | Null | Rule string

definition truthy_rule :: "rule_id \<Rightarrow> bool" where
  "truthy_rule x = (case x of Rule s \<Rightarrow> truthy_string s | _ \<Rightarrow> False)"

definition string_of_rule :: "rule_id \<Rightarrow> string" where
  "string_of_rule x = (case x of Undefined \<Rightarrow> ''undefined'' | Null \<Rightarrow> ''null'' | Rule s \<Rightarrow> s)"

text \<open>\<^verbatim>\<open>ruleId || d\<close>.\<close>

definition rule_or :: "rule_id \<Rightarrow> string \<Rightarrow> string" where
  "rule_or x d = (if truthy_rule x then string_of_rule x else d)"

text \<open>Reading an array at a number: \<^verbatim>\<open>undefined\<close> outside the array.\<close>

definition index :: "'a list \<Rightarrow> int \<Rightarrow> 'a option" where
  "index xs i = (if 0 \<le> i \<and> i < int (length xs) then Some (xs ! nat i) else None)"

text \<open>Template literals print an integer in decimal.\<close>

definition digit :: "nat \<Rightarrow> char" where
  "digit d = ''0123456789'' ! d"

fun string_of_nat :: "nat \<Rightarrow> string" where
  "string_of_nat n =
     (if n < 10 then [digit n] else string_of_nat (n div 10) @ [digit (n mod 10)])"

declare string_of_nat.simps [simp del]

definition string_of_int :: "int \<Rightarrow> string" where
  "string_of_int i = (if i < 0 then CHR ''-'' # string_of_nat (nat (- i)) else string_of_nat (nat i))"

text \<open>Reading a decimal numeral back, to state that the printed digits are the right ones.\<close>

definition digit_value :: "char \<Rightarrow> nat" where
  "digit_value c = of_char c - 48"

definition nat_of_string :: "string \<Rightarrow> nat" where
  "nat_of_string s = foldl (\<lambda>a c. 10 * a + digit_value c) 0 s"

text \<open>A template literal prints \<^verbatim>\<open>undefined\<close> by its name.\<close>

definition string_of_undefined :: "string option \<Rightarrow> string" where
  "string_of_undefined x = (case x of None \<Rightarrow> ''undefined'' | Some s \<Rightarrow> s)"

definition string_of_number :: "int option \<Rightarrow> string" where
  "string_of_number x = (case x of None \<Rightarrow> ''undefined'' | Some i \<Rightarrow> string_of_int i)"

definition newline :: string where
  "newline = [CHR 0x0A]"

text \<open>\<^verbatim>\<open>s.includes(sub)\<close>: \<open>sub\<close> occurs somewhere in \<open>s\<close>.\<close>

fun includes_str :: "string \<Rightarrow> string \<Rightarrow> bool" where
  "includes_str [] sub = (sub = [])"
| "includes_str (c # cs) sub = (prefix sub (c # cs) \<or> includes_str cs sub)"

text \<open>
  \<^verbatim>\<open>s.toLowerCase()\<close>. The capital letters below 256 are A to Z (65-90) and the
  accented capitals 192-222 without the multiplication sign 215; each has its small letter
  32 places higher.
\<close>

definition lower_char :: "char \<Rightarrow> char" where
  "lower_char c =
     (let n = (of_char c :: nat)
      in if (65 \<le> n \<and> n \<le> 90) \<or> (192 \<le> n \<and> n \<le> 222 \<and> n \<noteq> 215)
         then char_of (n + 32) else c)"

definition toLowerCase :: "string \<Rightarrow> string" where
  "toLowerCase s = map lower_char s"

text \<open>
  \<^verbatim>\<open>s.trim()\<close> drops white space and line ends from both ends of \<open>s\<close>. Below 256
  these are the tab, the line feed, the vertical tab, the form feed, the carriage return,
  the space and the no-break space.
\<close>

definition is_space :: "char \<Rightarrow> bool" where
  "is_space c \<longleftrightarrow> (of_char c :: nat) \<in> {9, 10, 11, 12, 13, 32, 160}"

definition trim :: "string \<Rightarrow> string" where
  "trim s = rev (dropWhile is_space (rev (dropWhile is_space s)))"

text \<open>
  \<^verbatim>\<open>getInput\<close> of the Actions toolkit (\<^verbatim>\<open>@actions/core\<close>, imported on line 5),
  called without options: the value of the input's environment variable, the empty string
  when the variable is not set, trimmed.
\<close>

definition getInput :: "string option \<Rightarrow> string" where
  "getInput v = trim (case v of None \<Rightarrow> [] | Some s \<Rightarrow> s)"

text \<open>
  \<^verbatim>\<open>path.extname\<close> of the Node.js library (POSIX flavour), which the file imports
  on line 3. Trailing slashes are dropped, the last path segment is taken, and the result
  runs from the last dot of that segment to its end. It is empty when the segment has no
  dot, when its only dot is its first character, and when the segment is \<^verbatim>\<open>..\<close>.
\<close>

definition extname :: "string \<Rightarrow> string" where
  "extname p =
     (let trimmed = rev (dropWhile (\<lambda>c. c = CHR ''/'') (rev p));
          segment = rev (takeWhile (\<lambda>c. c \<noteq> CHR ''/'') (rev trimmed));
          ext = rev (takeWhile (\<lambda>c. c \<noteq> CHR ''.'') (rev segment))
      in if CHR ''.'' \<notin> set segment then []
         else if length segment = length ext + 1 \<or> segment = ''..'' then []
         else CHR ''.'' # ext)"

section \<open>The data of a lint run\<close>

text \<open>
  The report of the lint engine, as \<^verbatim>\<open>lint\<close> destructures it (lines 16, 22, 25).
  The engine leaves the position out of a message about a whole file.
\<close>

record lint_message =
  line :: "int option"
  endLine :: "int option"
  column :: "int option"
  endColumn :: "int option"
  severity :: int
  ruleId :: rule_id
  message :: string

record lint_result =
  filePath :: string
  messages :: "lint_message list"

record cli_report =
  results :: "lint_result list"
  errorCount :: int
  warningCount :: int

text \<open>The annotation object pushed on lines 28-37, and what \<^verbatim>\<open>lint\<close> returns.\<close>

record annotation =
  path :: string
  start_line :: "int option"
  end_line :: "int option"
  start_column :: "int option"
  end_column :: "int option"
  annotation_level :: "string option"
  title :: string
  annotation_message :: string

record check_output =
  output_title :: string
  summary :: string
  annotations :: "annotation list"

record report =
  conclusion :: string
  report_output :: check_output

definition ACTION_NAME :: string where
  "ACTION_NAME = ''ESLint''"

definition EXTENSIONS :: "string list" where
  "EXTENSIONS = [''.ts'', ''.js'']"

definition levels :: "string list" where
  "levels = [''notice'', ''warning'', ''failure'']"

text \<open>\<^verbatim>\<open>[, 'warning', 'error']\<close>: the array has a hole at index 0.\<close>

definition consoleLevels :: "string option list" where
  "consoleLevels = [None, Some ''warning'', Some ''error'']"

definition annotationLevel :: "int \<Rightarrow> string option" where
  "annotationLevel sev = index levels sev"

definition consoleLevel :: "int \<Rightarrow> string option" where
  "consoleLevel sev = (case index consoleLevels sev of None \<Rightarrow> None | Some l \<Rightarrow> l)"

section \<open>The function lint\<close>

text \<open>The body of the inner loop: the annotation of lines 28-37.\<close>

definition annotation_of :: "string \<Rightarrow> lint_message \<Rightarrow> annotation" where
  "annotation_of p msg =
     \<lparr> path = p,
       start_line = line msg,
       end_line = number_or (endLine msg) (line msg),
       start_column = column msg,
       end_column = number_or (endColumn msg) (column msg),
       annotation_level = annotationLevel (severity msg),
       title = rule_or (ruleId msg) ACTION_NAME,
       annotation_message = message msg @
         (if truthy_rule (ruleId msg)
          then newline @ ''https://eslint.org/docs/rules/'' @ string_of_rule (ruleId msg)
          else []) \<rparr>"

text \<open>The two strings pushed to \<^verbatim>\<open>consoleOutput\<close> on lines 38 and 39.\<close>

definition console_line :: "lint_message \<Rightarrow> string" where
  "console_line msg =
     ''##['' @ string_of_undefined (consoleLevel (severity msg)) @ '']  '' @
     string_of_number (line msg) @ '':'' @ string_of_number (column msg) @ ''  '' @
     string_of_undefined (consoleLevel (severity msg)) @ ''  '' @
     message msg @ ''  '' @ string_of_rule (ruleId msg) @ newline @ newline"

definition console_of :: "string \<Rightarrow> lint_message \<Rightarrow> string list" where
  "console_of p msg = [p @ newline, console_line msg]"

text \<open>The loops of lines 21-41, with the two arrays they push to as the accumulator.\<close>

fun lint_messages ::
  "string \<Rightarrow> lint_message list \<Rightarrow> annotation list \<times> string list \<Rightarrow> annotation list \<times> string list"
where
  "lint_messages p [] acc = acc"
| "lint_messages p (msg # msgs) (anns, out) =
     lint_messages p msgs (anns @ [annotation_of p msg], out @ console_of p msg)"

fun lint_results ::
  "string \<Rightarrow> lint_result list \<Rightarrow> annotation list \<times> string list \<Rightarrow> annotation list \<times> string list"
where
  "lint_results ws [] acc = acc"
| "lint_results ws (res # rest) acc =
     lint_results ws rest
       (lint_messages (drop (length ws + 1) (filePath res)) (messages res) acc)"

text \<open>What the run does to the outside, in the order it does it.\<close>

datatype event =
    ConsoleLog string
  | CoreDebug string
  | CoreSetFailed string
  | Graphql int
  | ReposGetCommit string
  | ChecksListForRef string
  | ChecksCreate string
  | ChecksUpdate nat string "check_output option"
  | ExecuteOnFiles "string list"

text \<open>
  The engine is loaded from the linted project (line 10) and built (line 11); either may
  throw. Once built, \<^verbatim>\<open>executeOnFiles\<close> returns a report or throws.
\<close>

type_synonym engine = "string list \<Rightarrow> js_error + cli_report"

text \<open>\<^verbatim>\<open>files || ['src']\<close> (line 15): an array, also the empty one, is truthy.\<close>

definition lint_target :: "string list option \<Rightarrow> string list" where
  "lint_target files = (case files of None \<Rightarrow> [''src''] | Some fs \<Rightarrow> fs)"

definition make_report :: "string \<Rightarrow> cli_report \<Rightarrow> report \<times> string" where
  "make_report ws r =
     (let (anns, out) = lint_results ws (results r) ([], [])
      in (\<lparr> conclusion = (if errorCount r > 0 then ''failure'' else ''success''),
             report_output =
               \<lparr> output_title = ACTION_NAME,
                 summary = string_of_int (errorCount r) @ '' error(s), '' @
                           string_of_int (warningCount r) @ '' warning(s) found'',
                 annotations = anns \<rparr> \<rparr>,
          concat out))"

definition lint ::
  "string \<Rightarrow> js_error + engine \<Rightarrow> string list option \<Rightarrow> (js_error + report) \<times> event list"
where
  "lint ws eslint files =
     (case eslint of
        Inl e \<Rightarrow> (Inl e, [])
      | Inr executeOnFiles \<Rightarrow>
          (case executeOnFiles (lint_target files) of
             Inl e \<Rightarrow> (Inl e, [ExecuteOnFiles (lint_target files)])
           | Inr r \<Rightarrow>
               (Inr (fst (make_report ws r)),
                [ExecuteOnFiles (lint_target files), ConsoleLog (snd (make_report ws r))])))"

section \<open>The function run\<close>

text \<open>
  The answers of the host's API, with the fields the code reads: the pull request's file
  nodes and the commit ids of its \<^verbatim>\<open>commits.nodes\<close> (lines 86-87), the files of a
  commit (line 102), and the check runs of a ref (line 117).
\<close>

record pr_file_node =
  node_path :: string

record pull_request_info =
  commit_oids :: "string list"
  files_nodes :: "pr_file_node list"

record commit_file =
  filename :: string
  status :: string

record commit_info =
  data_files :: "commit_file list"

record check_run =
  check_name :: string
  check_id :: nat

text \<open>
  Everything the run reads from outside: the environment variables of line 6, the number
  of the triggering issue or pull request, the environment variables of the two inputs
  \<^verbatim>\<open>job-name\<close> and \<^verbatim>\<open>lint-all\<close> as the workflow sets them, and how each call to the host and to the engine answers. A call answers \<open>Inl e\<close> when it
  throws \<open>e\<close>. The two metadata queries may also resolve to a falsy value
  (\<open>Inr None\<close>), which \<^verbatim>\<open>if (info)\<close> tests on lines 85 and 101.
\<close>

record env =
  GITHUB_SHA :: string
  GITHUB_WORKSPACE :: string
  issue_number :: "int option"
  INPUT_JOB_NAME :: "string option"
  INPUT_LINT_ALL :: "string option"
  graphql :: "int \<Rightarrow> js_error + pull_request_info option"
  getCommit :: "string \<Rightarrow> js_error + commit_info option"
  listForRef :: "string \<Rightarrow> js_error + check_run list"
  checks_create :: "string \<Rightarrow> js_error + nat"
  checks_update :: "nat \<Rightarrow> js_error option"
  eslint :: "js_error + engine"

text \<open>The two inputs as the run reads them, on lines 109 and 140.\<close>

definition jobName :: "env \<Rightarrow> string" where
  "jobName env = getInput (INPUT_JOB_NAME env)"

definition lintAll :: "env \<Rightarrow> string" where
  "lintAll env = getInput (INPUT_LINT_ALL env)"

definition warning :: string where
  "warning = ''##[warning] Token doesn't have permission to access this resource.''"

text \<open>The filter of line 88.\<close>

definition pr_lintFiles :: "pr_file_node list \<Rightarrow> string list" where
  "pr_lintFiles files =
     map node_path
       (filter (\<lambda>file. extname (node_path file) \<in> set EXTENSIONS \<and>
                       \<not> includes_str (node_path file) ''.d.ts'') files)"

text \<open>The filter of line 103.\<close>

definition push_lintFiles :: "commit_file list \<Rightarrow> string list" where
  "push_lintFiles files =
     map filename
       (filter (\<lambda>file. extname (filename file) \<in> set EXTENSIONS \<and>
                       \<not> includes_str (filename file) ''.d.ts'' \<and>
                       status file \<noteq> ''removed'' \<and> status file \<noteq> ''changed'') files)"

text \<open>
  Lines 57-106 give \<^verbatim>\<open>currentSha\<close> and \<^verbatim>\<open>lintFiles\<close>. Reading
  \<^verbatim>\<open>commits.nodes[0].commit\<close> of a pull request without commits throws outside every
  \<^verbatim>\<open>try\<close>: the result is then \<open>None\<close>, and the run is rejected.
\<close>

definition pull_request_files ::
  "env \<Rightarrow> int \<Rightarrow> (string \<times> string list option) option \<times> event list"
where
  "pull_request_files env n =
     (case graphql env n of
        Inl e \<Rightarrow> (Some (GITHUB_SHA env, None), [Graphql n, ConsoleLog warning])
      | Inr None \<Rightarrow> (Some (GITHUB_SHA env, None), [Graphql n])
      | Inr (Some info) \<Rightarrow>
          (case commit_oids info of
             [] \<Rightarrow> (None, [Graphql n])
           | oid # _ \<Rightarrow> (Some (oid, Some (pr_lintFiles (files_nodes info))), [Graphql n])))"

definition push_files :: "env \<Rightarrow> (string \<times> string list option) option \<times> event list" where
  "push_files env =
     (case getCommit env (GITHUB_SHA env) of
        Inl e \<Rightarrow>
          (Some (GITHUB_SHA env, None), [ReposGetCommit (GITHUB_SHA env), ConsoleLog warning])
      | Inr None \<Rightarrow> (Some (GITHUB_SHA env, None), [ReposGetCommit (GITHUB_SHA env)])
      | Inr (Some info) \<Rightarrow>
          (Some (GITHUB_SHA env, Some (push_lintFiles (data_files info))),
           [ReposGetCommit (GITHUB_SHA env)]))"

definition select_files :: "env \<Rightarrow> (string \<times> string list option) option \<times> event list" where
  "select_files env =
     (case issue_number env of
        None \<Rightarrow> push_files env
      | Some n \<Rightarrow> if n \<noteq> 0 then pull_request_files env n else push_files env)"

text \<open>Lines 108-124: the id of a check run in progress that has the job's name.\<close>

definition find_check :: "env \<Rightarrow> string \<Rightarrow> nat option \<times> event list" where
  "find_check env sha =
     (if truthy_string (jobName env) then
        (case listForRef env sha of
           Inl e \<Rightarrow> (None, [ChecksListForRef sha, ConsoleLog warning])
         | Inr check_runs \<Rightarrow>
             (case find (\<lambda>c. toLowerCase (check_name c) = toLowerCase (jobName env)) check_runs of
                None \<Rightarrow> (None, [ChecksListForRef sha])
              | Some check \<Rightarrow> (Some (check_id check), [ChecksListForRef sha])))
      else (None, []))"

text \<open>Lines 125-138: without an id, a check run is created.\<close>

definition create_check :: "env \<Rightarrow> string \<Rightarrow> nat option \<Rightarrow> nat option \<times> event list" where
  "create_check env sha id0 =
     (if \<not> truthy_id id0 then
        (case checks_create env sha of
           Inl e \<Rightarrow> (id0, [ChecksCreate sha, ConsoleLog warning])
         | Inr new_id \<Rightarrow> (Some new_id, [ChecksCreate sha]))
      else (id0, []))"

text \<open>
  The guarded update of lines 142-155 and of lines 161-173: nothing without an id, and a
  warning when the call throws.
\<close>

definition update_check :: "env \<Rightarrow> nat option \<Rightarrow> string \<Rightarrow> check_output option \<Rightarrow> event list" where
  "update_check env id0 concl out =
     (case id0 of
        None \<Rightarrow> []
      | Some i \<Rightarrow>
          if i \<noteq> 0 then
            ChecksUpdate i concl out #
              (case checks_update env i of None \<Rightarrow> [] | Some e \<Rightarrow> [ConsoleLog warning])
          else [])"

text \<open>Lines 142-158 when \<^verbatim>\<open>lint\<close> returned, lines 160-175 when it threw.\<close>

definition complete :: "env \<Rightarrow> nat option \<Rightarrow> js_error + report \<Rightarrow> event list" where
  "complete env id0 r =
     (case r of
        Inr rep \<Rightarrow>
          update_check env id0 (conclusion rep) (Some (report_output rep)) @
          [CoreDebug (summary (report_output rep))] @
          (if conclusion rep = ''failure'' then [CoreSetFailed (summary (report_output rep))]
           else [])
      | Inl e \<Rightarrow>
          update_check env id0 ''failure'' None @ [CoreSetFailed (error_message e)])"

text \<open>\<^verbatim>\<open>lintAll ? null : lintFiles\<close> (line 141).\<close>

definition lint_argument :: "string \<Rightarrow> string list option \<Rightarrow> string list option" where
  "lint_argument input lintFiles = (if truthy_string input then None else lintFiles)"

text \<open>Lines 107-175: what the run does once the commit and the files are known.\<close>

definition check_and_lint :: "env \<Rightarrow> string \<Rightarrow> string list option \<Rightarrow> event list" where
  "check_and_lint env currentSha lintFiles =
     (let (id0, ev2) = find_check env currentSha;
          (id1, ev3) = create_check env currentSha id0;
          (r, ev4) = lint (GITHUB_WORKSPACE env) (eslint env)
                          (lint_argument (lintAll env) lintFiles)
      in [CoreDebug (''Commit: '' @ currentSha)] @ ev2 @ ev3 @ ev4 @ complete env id1 r)"

record run_result =
  rejected :: bool
  trace :: "event list"

definition run :: "env \<Rightarrow> run_result" where
  "run env =
     (case select_files env of
        (None, ev1) \<Rightarrow> \<lparr> rejected = True, trace = ev1 \<rparr>
      | (Some (currentSha, lintFiles), ev1) \<Rightarrow>
          \<lparr> rejected = False, trace = ev1 @ check_and_lint env currentSha lintFiles \<rparr>)"

text \<open>
  Reading a trace: the file lists given to the engine, the updates sent to the check run,
  the messages the run was failed with, and the id the run works with after line 138.
\<close>

fun engine_calls :: "event list \<Rightarrow> string list list" where
  "engine_calls [] = []"
| "engine_calls (ExecuteOnFiles fs # es) = fs # engine_calls es"
| "engine_calls (_ # es) = engine_calls es"

fun check_updates :: "event list \<Rightarrow> (nat \<times> string \<times> check_output option) list" where
  "check_updates [] = []"
| "check_updates (ChecksUpdate i c out # es) = (i, c, out) # check_updates es"
| "check_updates (_ # es) = check_updates es"

fun failures :: "event list \<Rightarrow> string list" where
  "failures [] = []"
| "failures (CoreSetFailed m # es) = m # failures es"
| "failures (_ # es) = failures es"

definition run_id :: "env \<Rightarrow> string \<Rightarrow> nat option" where
  "run_id env sha = fst (create_check env sha (fst (find_check env sha)))"

section \<open>Example runs\<close>

text \<open>
  A push whose commit touches no file that is linted; the same trigger as a pull request
  whose metadata query is refused; a push with the \<^verbatim>\<open>lint-all\<close> input set to
  \<^verbatim>\<open>false\<close>, and the same push with the input set to one space; and a push on a
  project whose engine throws.
\<close>

definition push_env :: env where
  "push_env =
     \<lparr> GITHUB_SHA = ''4f2a9c1'',
       GITHUB_WORKSPACE = ''/home/runner/work/app'',
       issue_number = None,
       INPUT_JOB_NAME = None,
       INPUT_LINT_ALL = None,
       graphql = (\<lambda>n. Inl (Error ''Resource not accessible by integration'')),
       getCommit = (\<lambda>ref. Inr (Some \<lparr> data_files =
          [\<lparr> filename = ''README.md'', status = ''modified'' \<rparr>,
           \<lparr> filename = ''src/old.ts'', status = ''removed'' \<rparr>] \<rparr>)),
       listForRef = (\<lambda>ref. Inr []),
       checks_create = (\<lambda>sha. Inr 17),
       checks_update = (\<lambda>i. None),
       eslint = Inr (\<lambda>fs. Inr \<lparr> results = [], errorCount = 0, warningCount = 0 \<rparr>) \<rparr>"

definition pr_env :: env where
  "pr_env = push_env \<lparr> issue_number := Some 12 \<rparr>"

definition lint_all_env :: env where
  "lint_all_env =
     push_env \<lparr> INPUT_LINT_ALL := Some ''false'',
       getCommit := (\<lambda>ref. Inr (Some \<lparr> data_files =
          [\<lparr> filename = ''src/a.ts'', status = ''added'' \<rparr>] \<rparr>)) \<rparr>"

definition blank_env :: env where
  "blank_env = lint_all_env \<lparr> INPUT_LINT_ALL := Some '' '' \<rparr>"

definition broken_env :: env where
  "broken_env = push_env \<lparr> eslint := Inr (\<lambda>fs. Inl (Error ''Cannot read config file'')) \<rparr>"

definition undefined_name :: lint_message where
  "undefined_name =
     \<lparr> line = Some 3, endLine = None, column = Some 7, endColumn = None, severity = 2,
       ruleId = Rule ''no-undef'', message = ''x is not defined'' \<rparr>"

section \<open>Strings\<close>

lemma includes_str_iff: "includes_str s sub \<longleftrightarrow> (\<exists>u v. s = u @ sub @ v)"
proof (induction s)
  case Nil
  then show ?case by auto
next
  case (Cons c cs)
  show ?case
  proof
    assume "includes_str (c # cs) sub"
    then consider "prefix sub (c # cs)" | "includes_str cs sub" by auto
    then show "\<exists>u v. c # cs = u @ sub @ v"
    proof cases
      case 1
      then obtain v where "c # cs = sub @ v" by (auto simp: prefix_def)
      then have "c # cs = [] @ sub @ v" by simp
      then show ?thesis by blast
    next
      case 2
      with Cons.IH obtain u v where "cs = u @ sub @ v" by blast
      then have "c # cs = (c # u) @ sub @ v" by simp
      then show ?thesis by blast
    qed
  next
    assume "\<exists>u v. c # cs = u @ sub @ v"
    then obtain u v where uv: "c # cs = u @ sub @ v" by blast
    show "includes_str (c # cs) sub"
    proof (cases u)
      case Nil
      with uv have "prefix sub (c # cs)" by (simp add: prefix_def)
      then show ?thesis by simp
    next
      case (Cons a u')
      with uv have "cs = u' @ sub @ v" by simp
      with Cons.IH have "includes_str cs sub" by blast
      then show ?thesis by simp
    qed
  qed
qed

lemma suffix_includes_str: "suffix sub s \<Longrightarrow> includes_str s sub"
proof -
  assume "suffix sub s"
  then obtain zs where "s = zs @ sub @ []"
    by (auto simp: suffix_def)
  then show ?thesis
    unfolding includes_str_iff by blast
qed

text \<open>Trimming leaves nothing exactly of the strings that are white space throughout.\<close>

lemma dropWhile_all: "(\<forall>c \<in> set (dropWhile P s). P c) \<longleftrightarrow> (\<forall>c \<in> set s. P c)"
proof
  assume rest: "\<forall>c \<in> set (dropWhile P s). P c"
  have "set s = set (takeWhile P s) \<union> set (dropWhile P s)"
    by (metis set_append takeWhile_dropWhile_id)
  with rest show "\<forall>c \<in> set s. P c"
    by (auto dest: set_takeWhileD)
next
  assume "\<forall>c \<in> set s. P c"
  then show "\<forall>c \<in> set (dropWhile P s). P c"
    by (auto dest: set_dropWhileD)
qed

lemma trim_empty_iff: "trim s = [] \<longleftrightarrow> (\<forall>c \<in> set s. is_space c)"
  by (simp add: trim_def dropWhile_eq_Nil_conv dropWhile_all)

lemma getInput_empty_iff:
  "getInput v = [] \<longleftrightarrow> (case v of None \<Rightarrow> True | Some s \<Rightarrow> \<forall>c \<in> set s. is_space c)"
  by (cases v) (simp_all add: getInput_def trim_empty_iff)

lemma digit_value_digit: "d < 10 \<Longrightarrow> digit_value (digit d) = d"
proof -
  assume "d < 10"
  then have "d \<in> {0, 1, 2, 3, 4, 5, 6, 7, 8, 9}" by auto
  then show ?thesis by (auto simp: digit_def digit_value_def)
qed

text \<open>The digits printed for a count read back as the count.\<close>

lemma string_of_nat_inverse: "nat_of_string (string_of_nat n) = n"
proof (induction n rule: string_of_nat.induct)
  case (1 n)
  show ?case
  proof (cases "n < 10")
    case True
    then show ?thesis
      by (subst string_of_nat.simps) (simp add: nat_of_string_def digit_value_digit)
  next
    case False
    with 1 have "nat_of_string (string_of_nat (n div 10)) = n div 10" by simp
    with False show ?thesis
      by (subst string_of_nat.simps) (simp add: nat_of_string_def digit_value_digit)
  qed
qed

lemma string_of_int_0: "string_of_int 0 = ''0''"
  by (simp add: string_of_int_def string_of_nat.simps digit_def)

lemma string_of_int_2: "string_of_int 2 = ''2''"
  by (simp add: string_of_int_def string_of_nat.simps digit_def)

section \<open>The report of a lint run\<close>

lemma lint_messages_acc:
  "lint_messages p msgs (anns, out) =
     (anns @ map (annotation_of p) msgs, out @ concat (map (console_of p) msgs))"
  by (induction msgs arbitrary: anns out) simp_all

lemma lint_results_acc:
  "lint_results ws rs (anns, out) =
     (anns @ concat (map (\<lambda>res. map (annotation_of (drop (length ws + 1) (filePath res)))
                                 (messages res)) rs),
      out @ concat (map (\<lambda>res. concat (map (console_of (drop (length ws + 1) (filePath res)))
                                        (messages res))) rs))"
  by (induction rs arbitrary: anns out) (simp_all add: lint_messages_acc)

text \<open>
  When the engine returns, \<^verbatim>\<open>lint\<close> returns, with one annotation for each message,
  file by file, in the engine's order.
\<close>

lemma lint_annotations:
  assumes "engine = Inr executeOnFiles"
      and "executeOnFiles (lint_target files) = Inr r"
  shows "\<exists>rep ev. lint ws engine files = (Inr rep, ev) \<and>
           annotations (report_output rep) =
             concat (map (\<lambda>res. map (annotation_of (drop (length ws + 1) (filePath res)))
                                  (messages res)) (results r))"
  using assms by (simp add: lint_def make_report_def lint_results_acc split: prod.splits)

text \<open>
  Claim C1. Whenever the engine returns a report, \<^verbatim>\<open>lint\<close> returns one too, and its
  conclusion is \<^verbatim>\<open>failure\<close> exactly when the engine's error count is above 0, and
  \<^verbatim>\<open>success\<close> exactly when it is not, whatever the two counts are.
\<close>

theorem lint_conclusion:
  assumes "engine = Inr executeOnFiles"
      and "executeOnFiles (lint_target files) = Inr r"
  shows "\<exists>rep ev. lint ws engine files = (Inr rep, ev) \<and>
           (conclusion rep = ''failure'' \<longleftrightarrow> errorCount r > 0) \<and>
           (conclusion rep = ''success'' \<longleftrightarrow> \<not> errorCount r > 0)"
  using assms by (simp add: lint_def make_report_def split: prod.splits)

theorem lint_conclusion_witness:
  "\<exists>rep ev. lint ''/work'' (Inr (\<lambda>fs. Inr \<lparr>results = [], errorCount = 3, warningCount = 1\<rparr>)) None
       = (Inr rep, ev) \<and> conclusion rep = ''failure''"
  using lint_conclusion [of "Inr (\<lambda>fs. Inr \<lparr>results = [], errorCount = 3, warningCount = 1\<rparr>)"
      "\<lambda>fs. Inr \<lparr>results = [], errorCount = 3, warningCount = 1\<rparr>" None
      "\<lparr>results = [], errorCount = 3, warningCount = 1\<rparr>" "''/work''"]
  by auto

text \<open>
  Claim C2. A message of severity 0, 1 or 2 gets the annotation level \<^verbatim>\<open>notice\<close>,
  \<^verbatim>\<open>warning\<close> or \<^verbatim>\<open>failure\<close>, and its console line is built with no level,
  with \<^verbatim>\<open>warning\<close> or with \<^verbatim>\<open>error\<close>. The level that is absent is printed as
  the word \<^verbatim>\<open>undefined\<close>.
\<close>

theorem severity_levels:
  "annotation_level (annotation_of p (msg\<lparr>severity := 0\<rparr>)) = Some ''notice'' \<and>
   annotation_level (annotation_of p (msg\<lparr>severity := 1\<rparr>)) = Some ''warning'' \<and>
   annotation_level (annotation_of p (msg\<lparr>severity := 2\<rparr>)) = Some ''failure'' \<and>
   consoleLevel 0 = None \<and> consoleLevel 1 = Some ''warning'' \<and> consoleLevel 2 = Some ''error'' \<and>
   console_line (msg\<lparr>severity := 0\<rparr>) =
     ''##[undefined]  '' @ string_of_number (line msg) @ '':'' @ string_of_number (column msg) @
     ''  undefined  '' @ message msg @ ''  '' @ string_of_rule (ruleId msg) @ newline @ newline \<and>
   console_line (msg\<lparr>severity := 1\<rparr>) =
     ''##[warning]  '' @ string_of_number (line msg) @ '':'' @ string_of_number (column msg) @
     ''  warning  '' @ message msg @ ''  '' @ string_of_rule (ruleId msg) @ newline @ newline \<and>
   console_line (msg\<lparr>severity := 2\<rparr>) =
     ''##[error]  '' @ string_of_number (line msg) @ '':'' @ string_of_number (column msg) @
     ''  error  '' @ message msg @ ''  '' @ string_of_rule (ruleId msg) @ newline @ newline"
  by (simp add: annotation_of_def annotationLevel_def consoleLevel_def console_line_def
      index_def levels_def consoleLevels_def string_of_undefined_def)

theorem severity_levels_witness:
  "annotation_level (annotation_of ''src/a.ts'' undefined_name) = Some ''failure'' \<and>
   console_line undefined_name =
     ''##[error]  3:7  error  x is not defined  no-undef'' @ newline @ newline \<and>
   console_line (undefined_name\<lparr>severity := 0\<rparr>) =
     ''##[undefined]  3:7  undefined  x is not defined  no-undef'' @ newline @ newline"
proof -
  have same: "undefined_name\<lparr>severity := 2\<rparr> = undefined_name"
    by (simp add: undefined_name_def)
  have position: "string_of_number (line undefined_name) = ''3''"
    "string_of_number (column undefined_name) = ''7''"
    by (simp_all add: undefined_name_def string_of_number_def string_of_int_def
        string_of_nat.simps digit_def)
  have rest: "message undefined_name = ''x is not defined''"
    "string_of_rule (ruleId undefined_name) = ''no-undef''"
    by (simp_all add: undefined_name_def string_of_rule_def)
  show ?thesis
    using severity_levels [of "''src/a.ts''" undefined_name]
    by (simp add: same position rest)
qed

text \<open>
  Claim C7. The annotation of a message starts at the message's line and column; without
  an \<^verbatim>\<open>endLine\<close> its end line is its start line, and without an \<^verbatim>\<open>endColumn\<close>
  its end column is its start column.
\<close>

theorem annotation_end_defaults:
  "start_line (annotation_of p msg) = line msg \<and>
   start_column (annotation_of p msg) = column msg \<and>
   (endLine msg = None \<longrightarrow> end_line (annotation_of p msg) = start_line (annotation_of p msg)) \<and>
   (endColumn msg = None \<longrightarrow> end_column (annotation_of p msg) = start_column (annotation_of p msg))"
  by (simp add: annotation_of_def number_or_def)

theorem annotation_end_defaults_witness:
  "endLine undefined_name = None \<and> endColumn undefined_name = None \<and>
   end_line (annotation_of ''src/a.ts'' undefined_name) = Some 3 \<and>
   end_column (annotation_of ''src/a.ts'' undefined_name) = Some 7"
proof -
  have absent: "endLine undefined_name = None" "endColumn undefined_name = None"
    by (simp_all add: undefined_name_def)
  have start: "line undefined_name = Some 3" "column undefined_name = Some 7"
    by (simp_all add: undefined_name_def)
  show ?thesis
    using annotation_end_defaults [of "''src/a.ts''" undefined_name] absent start by simp
qed

text \<open>
  Claim C8. Whenever the engine returns a report, the summary of the report that
  \<^verbatim>\<open>lint\<close> returns is the error count, \<^verbatim>\<open> error(s), \<close>, the warning count and
  \<^verbatim>\<open> warning(s) found\<close>; with 0 errors and 2 warnings the conclusion is
  \<^verbatim>\<open>success\<close> and the summary is \<^verbatim>\<open>0 error(s), 2 warning(s) found\<close>.
\<close>

theorem lint_summary:
  assumes "engine = Inr executeOnFiles"
      and "executeOnFiles (lint_target files) = Inr r"
  shows "\<exists>rep ev. lint ws engine files = (Inr rep, ev) \<and>
           summary (report_output rep) =
             string_of_int (errorCount r) @ '' error(s), '' @
             string_of_int (warningCount r) @ '' warning(s) found'' \<and>
           (errorCount r = 0 \<and> warningCount r = 2 \<longrightarrow>
              conclusion rep = ''success'' \<and>
              summary (report_output rep) = ''0 error(s), 2 warning(s) found'')"
  using assms
  by (simp add: lint_def make_report_def string_of_int_0 string_of_int_2 split: prod.splits)

theorem lint_summary_witness:
  "\<exists>rep ev. lint ''/work'' (Inr (\<lambda>fs. Inr \<lparr>results = [], errorCount = 0, warningCount = 2\<rparr>))
         (Some [''a.ts''])
       = (Inr rep, ev) \<and> conclusion rep = ''success'' \<and>
       summary (report_output rep) = ''0 error(s), 2 warning(s) found''"
  using lint_summary [of "Inr (\<lambda>fs. Inr \<lparr>results = [], errorCount = 0, warningCount = 2\<rparr>)"
      "\<lambda>fs. Inr \<lparr>results = [], errorCount = 0, warningCount = 2\<rparr>" "Some [''a.ts'']"
      "\<lparr>results = [], errorCount = 0, warningCount = 2\<rparr>" "''/work''"]
  by auto

section \<open>The files that are linted\<close>

text \<open>
  Claim C3, as the code has it. Of the changed paths of a pull request, the filter keeps,
  in their order, exactly those whose extension is \<^verbatim>\<open>.ts\<close> or \<^verbatim>\<open>.js\<close> and
  in which \<^verbatim>\<open>.d.ts\<close> occurs nowhere. So no path that ends in \<^verbatim>\<open>.d.ts\<close> is
  kept, and of \<^verbatim>\<open>a.ts\<close>, \<^verbatim>\<open>b.d.ts\<close>, \<^verbatim>\<open>c.py\<close> only \<^verbatim>\<open>a.ts\<close> is.
\<close>

theorem pr_lintFiles_selection:
  "pr_lintFiles files =
     filter (\<lambda>p. (extname p = ''.ts'' \<or> extname p = ''.js'') \<and> \<not> (\<exists>u v. p = u @ ''.d.ts'' @ v))
       (map node_path files) \<and>
   (\<forall>p. suffix ''.d.ts'' p \<longrightarrow> p \<notin> set (pr_lintFiles files)) \<and>
   pr_lintFiles [\<lparr>node_path = ''a.ts''\<rparr>, \<lparr>node_path = ''b.d.ts''\<rparr>, \<lparr>node_path = ''c.py''\<rparr>]
     = [''a.ts'']"
proof -
  have a: "pr_lintFiles files =
     filter (\<lambda>p. (extname p = ''.ts'' \<or> extname p = ''.js'') \<and> \<not> (\<exists>u v. p = u @ ''.d.ts'' @ v))
       (map node_path files)"
    by (simp add: pr_lintFiles_def EXTENSIONS_def includes_str_iff filter_map comp_def)
  have b: "\<forall>p. suffix ''.d.ts'' p \<longrightarrow> p \<notin> set (pr_lintFiles files)"
    by (auto simp: pr_lintFiles_def dest: suffix_includes_str)
  have c: "pr_lintFiles [\<lparr>node_path = ''a.ts''\<rparr>, \<lparr>node_path = ''b.d.ts''\<rparr>, \<lparr>node_path = ''c.py''\<rparr>]
     = [''a.ts'']"
    by (simp add: pr_lintFiles_def EXTENSIONS_def extname_def)
  from a b c show ?thesis by blast
qed

theorem pr_lintFiles_selection_witness:
  "suffix ''.d.ts'' ''types/index.d.ts'' \<and>
   ''types/index.d.ts'' \<notin> set (pr_lintFiles
      [\<lparr>node_path = ''src/index.js''\<rparr>, \<lparr>node_path = ''types/index.d.ts''\<rparr>]) \<and>
   pr_lintFiles [\<lparr>node_path = ''src/index.js''\<rparr>, \<lparr>node_path = ''types/index.d.ts''\<rparr>]
     = [''src/index.js'']"
proof -
  have s: "suffix ''.d.ts'' ''types/index.d.ts''"
    by (simp add: suffix_to_prefix)
  have k: "pr_lintFiles [\<lparr>node_path = ''src/index.js''\<rparr>, \<lparr>node_path = ''types/index.d.ts''\<rparr>]
     = [''src/index.js'']"
    by (simp add: pr_lintFiles_def EXTENSIONS_def extname_def)
  have "''types/index.d.ts'' \<notin> set (pr_lintFiles
      [\<lparr>node_path = ''src/index.js''\<rparr>, \<lparr>node_path = ''types/index.d.ts''\<rparr>])"
    using pr_lintFiles_selection
      [of "[\<lparr>node_path = ''src/index.js''\<rparr>, \<lparr>node_path = ''types/index.d.ts''\<rparr>]"] s
    by blast
  with s k show ?thesis by blast
qed

text \<open>
  The claim as the specification words it fails: \<^verbatim>\<open>lib.d.ts.js\<close> has the extension
  \<^verbatim>\<open>.js\<close> and does not end in \<^verbatim>\<open>.d.ts\<close>, and the filter drops it.
\<close>

theorem pr_lintFiles_counterexample:
  "extname ''lib.d.ts.js'' = ''.js'' \<and> \<not> suffix ''.d.ts'' ''lib.d.ts.js'' \<and>
   pr_lintFiles [\<lparr>node_path = ''lib.d.ts.js''\<rparr>] = []"
  by (simp add: pr_lintFiles_def EXTENSIONS_def extname_def suffix_to_prefix)

text \<open>
  Claim C4. On a push, the filter is the one of a pull request applied to the entries
  whose status is neither \<^verbatim>\<open>removed\<close> nor \<^verbatim>\<open>changed\<close>: an entry with one of
  these two statuses adds nothing to the result, wherever it stands in the list.
\<close>

theorem push_lintFiles_status:
  "push_lintFiles files =
     pr_lintFiles (map (\<lambda>file. \<lparr>node_path = filename file\<rparr>)
       (filter (\<lambda>file. status file \<noteq> ''removed'' \<and> status file \<noteq> ''changed'') files)) \<and>
   (status file = ''removed'' \<or> status file = ''changed'' \<longrightarrow>
      push_lintFiles (before @ file # after) = push_lintFiles (before @ after))"
proof -
  have a: "push_lintFiles files =
     pr_lintFiles (map (\<lambda>file. \<lparr>node_path = filename file\<rparr>)
       (filter (\<lambda>file. status file \<noteq> ''removed'' \<and> status file \<noteq> ''changed'') files))"
    by (induction files) (simp_all add: push_lintFiles_def pr_lintFiles_def)
  have b: "status file = ''removed'' \<or> status file = ''changed'' \<longrightarrow>
      push_lintFiles (before @ file # after) = push_lintFiles (before @ after)"
    by (auto simp: push_lintFiles_def)
  from a b show ?thesis by blast
qed

theorem push_lintFiles_status_witness:
  "status \<lparr>filename = ''src/b.ts'', status = ''removed''\<rparr> = ''removed'' \<and>
   push_lintFiles
     ([\<lparr>filename = ''src/a.ts'', status = ''added''\<rparr>] @
      \<lparr>filename = ''src/b.ts'', status = ''removed''\<rparr> #
      [\<lparr>filename = ''src/d.js'', status = ''modified''\<rparr>,
       \<lparr>filename = ''src/e.ts'', status = ''renamed''\<rparr>])
   = [''src/a.ts'', ''src/d.js'', ''src/e.ts'']"
proof -
  have kept: "push_lintFiles
     ([\<lparr>filename = ''src/a.ts'', status = ''added''\<rparr>] @
      [\<lparr>filename = ''src/d.js'', status = ''modified''\<rparr>,
       \<lparr>filename = ''src/e.ts'', status = ''renamed''\<rparr>])
     = [''src/a.ts'', ''src/d.js'', ''src/e.ts'']"
    by (simp add: push_lintFiles_def EXTENSIONS_def extname_def)
  have gone: "status \<lparr>filename = ''src/b.ts'', status = ''removed''\<rparr> = ''removed''"
    by simp
  have "push_lintFiles
     ([\<lparr>filename = ''src/a.ts'', status = ''added''\<rparr>] @
      \<lparr>filename = ''src/b.ts'', status = ''removed''\<rparr> #
      [\<lparr>filename = ''src/d.js'', status = ''modified''\<rparr>,
       \<lparr>filename = ''src/e.ts'', status = ''renamed''\<rparr>])
     = push_lintFiles
     ([\<lparr>filename = ''src/a.ts'', status = ''added''\<rparr>] @
      [\<lparr>filename = ''src/d.js'', status = ''modified''\<rparr>,
       \<lparr>filename = ''src/e.ts'', status = ''renamed''\<rparr>])"
    using push_lintFiles_status [of _ "\<lparr>filename = ''src/b.ts'', status = ''removed''\<rparr>"
        "[\<lparr>filename = ''src/a.ts'', status = ''added''\<rparr>]"
        "[\<lparr>filename = ''src/d.js'', status = ''modified''\<rparr>,
          \<lparr>filename = ''src/e.ts'', status = ''renamed''\<rparr>]"] gone
    by blast
  with kept gone show ?thesis by simp
qed

section \<open>The trace of a run\<close>

lemma engine_calls_append: "engine_calls (a @ b) = engine_calls a @ engine_calls b"
  by (induction a rule: engine_calls.induct) simp_all

lemma check_updates_append: "check_updates (a @ b) = check_updates a @ check_updates b"
  by (induction a rule: check_updates.induct) simp_all

lemma failures_append: "failures (a @ b) = failures a @ failures b"
  by (induction a rule: failures.induct) simp_all

text \<open>Which step sends what: only \<^verbatim>\<open>lint\<close> calls the engine, only the last step
  updates the check run and fails the run.\<close>

lemma select_files_quiet:
  "engine_calls (snd (select_files env)) = []"
  "check_updates (snd (select_files env)) = []"
  "failures (snd (select_files env)) = []"
  by (simp_all add: select_files_def pull_request_files_def push_files_def
      split: option.splits sum.splits list.splits)

lemma find_check_quiet:
  "engine_calls (snd (find_check env sha)) = []"
  "check_updates (snd (find_check env sha)) = []"
  "failures (snd (find_check env sha)) = []"
  by (simp_all add: find_check_def split: option.splits sum.splits)

lemma create_check_quiet:
  "engine_calls (snd (create_check env sha i)) = []"
  "check_updates (snd (create_check env sha i)) = []"
  "failures (snd (create_check env sha i)) = []"
  by (simp_all add: create_check_def split: sum.splits)

lemma update_check_events:
  "engine_calls (update_check env i c out) = []"
  "failures (update_check env i c out) = []"
  "check_updates (update_check env i c out) =
     (case i of None \<Rightarrow> [] | Some j \<Rightarrow> if j \<noteq> 0 then [(j, c, out)] else [])"
  by (simp_all add: update_check_def split: option.splits)

lemma lint_events:
  "engine_calls (snd (lint ws engine files)) =
     (case engine of Inl e \<Rightarrow> [] | Inr executeOnFiles \<Rightarrow> [lint_target files])"
  "check_updates (snd (lint ws engine files)) = []"
  "failures (snd (lint ws engine files)) = []"
  by (simp_all add: lint_def split: sum.splits)

lemma complete_engine_calls: "engine_calls (complete env i r) = []"
  by (simp add: complete_def engine_calls_append update_check_events split: sum.splits)

lemma check_and_lint_unfold:
  "check_and_lint env sha lintFiles =
     [CoreDebug (''Commit: '' @ sha)] @ snd (find_check env sha) @
     snd (create_check env sha (fst (find_check env sha))) @
     snd (lint (GITHUB_WORKSPACE env) (eslint env) (lint_argument (lintAll env) lintFiles)) @
     complete env (run_id env sha)
       (fst (lint (GITHUB_WORKSPACE env) (eslint env) (lint_argument (lintAll env) lintFiles)))"
  by (simp add: check_and_lint_def run_id_def split: prod.splits)

lemma check_and_lint_engine_calls:
  "engine_calls (check_and_lint env sha lintFiles) =
     (case eslint env of Inl e \<Rightarrow> []
      | Inr executeOnFiles \<Rightarrow> [lint_target (lint_argument (lintAll env) lintFiles)])"
  by (simp add: check_and_lint_unfold engine_calls_append find_check_quiet create_check_quiet
      lint_events complete_engine_calls)

lemma run_selected:
  assumes "select_files env = (Some (sha, lintFiles), ev1)"
  shows "run env = \<lparr> rejected = False, trace = ev1 @ check_and_lint env sha lintFiles \<rparr>"
  using assms by (simp add: run_def)

text \<open>A run that gets past line 106 calls the engine once if it loads, and never twice.\<close>

lemma run_engine_calls:
  assumes "select_files env = (Some (sha, lintFiles), ev1)"
  shows "engine_calls (trace (run env)) =
     (case eslint env of Inl e \<Rightarrow> []
      | Inr executeOnFiles \<Rightarrow> [lint_target (lint_argument (lintAll env) lintFiles)])"
proof -
  have "engine_calls ev1 = []"
    using select_files_quiet(1) [of env] assms by simp
  then show ?thesis
    by (simp add: run_selected [OF assms] engine_calls_append check_and_lint_engine_calls)
qed

text \<open>
  Claim C5. When the run is triggered by a pull request and the metadata query throws,
  a warning is logged, no file list is selected and the commit is \<^verbatim>\<open>GITHUB_SHA\<close>;
  the run is not rejected and goes on with the check run and the lint step, and the
  engine, if it loads, is called once, on \<^verbatim>\<open>['src']\<close>.
\<close>

theorem pr_query_throws:
  assumes "issue_number env = Some n" and "n \<noteq> 0" and "graphql env n = Inl e"
  shows "select_files env = (Some (GITHUB_SHA env, None), [Graphql n, ConsoleLog warning]) \<and>
         run env = \<lparr> rejected = False,
                     trace = [Graphql n, ConsoleLog warning] @
                             check_and_lint env (GITHUB_SHA env) None \<rparr> \<and>
         engine_calls (trace (run env)) =
           (case eslint env of Inl e \<Rightarrow> [] | Inr executeOnFiles \<Rightarrow> [[''src'']])"
proof -
  have sel: "select_files env = (Some (GITHUB_SHA env, None), [Graphql n, ConsoleLog warning])"
    using assms by (simp add: select_files_def pull_request_files_def)
  have target: "lint_target (lint_argument (lintAll env) None) = [''src'']"
    by (simp add: lint_target_def lint_argument_def)
  have calls: "engine_calls (trace (run env)) =
      (case eslint env of Inl e \<Rightarrow> [] | Inr executeOnFiles \<Rightarrow> [[''src'']])"
    unfolding run_engine_calls [OF sel] target ..
  from sel run_selected [OF sel] calls show ?thesis by blast
qed

theorem pr_query_throws_witness:
  "issue_number pr_env = Some 12 \<and>
   graphql pr_env 12 = Inl (Error ''Resource not accessible by integration'') \<and>
   \<not> rejected (run pr_env) \<and>
   fst (select_files pr_env) = Some (''4f2a9c1'', None) \<and>
   engine_calls (trace (run pr_env)) = [[''src'']]"
proof -
  have num: "issue_number pr_env = Some 12"
    by (simp add: pr_env_def push_env_def)
  have thrown: "graphql pr_env 12 = Inl (Error ''Resource not accessible by integration'')"
    by (simp add: pr_env_def push_env_def)
  have sha: "GITHUB_SHA pr_env = ''4f2a9c1''"
    by (simp add: pr_env_def push_env_def)
  have eng: "eslint pr_env = Inr (\<lambda>fs. Inr \<lparr> results = [], errorCount = 0, warningCount = 0 \<rparr>)"
    by (simp add: pr_env_def push_env_def)
  have nz: "(12::int) \<noteq> 0"
    by simp
  have sel: "select_files pr_env = (Some (GITHUB_SHA pr_env, None), [Graphql 12, ConsoleLog warning])"
    and whole: "run pr_env = \<lparr> rejected = False,
        trace = [Graphql 12, ConsoleLog warning] @ check_and_lint pr_env (GITHUB_SHA pr_env) None \<rparr>"
    and calls: "engine_calls (trace (run pr_env)) =
        (case eslint pr_env of Inl e \<Rightarrow> [] | Inr executeOnFiles \<Rightarrow> [[''src'']])"
    using pr_query_throws [OF num nz thrown] by blast+
  have "\<not> rejected (run pr_env)"
    by (simp add: whole)
  moreover have "fst (select_files pr_env) = Some (''4f2a9c1'', None)"
    by (simp add: sel sha)
  moreover have "engine_calls (trace (run pr_env)) = [[''src'']]"
    by (simp add: calls eng)
  ultimately show ?thesis
    using num thrown by blast
qed

text \<open>
  Claim C6. When \<^verbatim>\<open>lint\<close> throws and the run holds the id of a check run, the run
  sends exactly one update to that check run, with the conclusion \<^verbatim>\<open>failure\<close> and
  without an output, and fails exactly once, with the message of the error thrown.
\<close>

theorem lint_throws_marks_failure:
  assumes "select_files env = (Some (sha, lintFiles), ev1)"
      and "lint (GITHUB_WORKSPACE env) (eslint env) (lint_argument (lintAll env) lintFiles)
             = (Inl e, ev4)"
      and "run_id env sha = Some i" and "i \<noteq> 0"
  shows "\<not> rejected (run env) \<and>
         check_updates (trace (run env)) = [(i, ''failure'', None)] \<and>
         failures (trace (run env)) = [error_message e]"
proof -
  have quiet: "check_updates ev1 = []" "failures ev1 = []"
    using select_files_quiet(2,3) [of env] assms(1) by simp_all
  have ev4: "check_updates ev4 = []" "failures ev4 = []"
    using lint_events(2,3) [of "GITHUB_WORKSPACE env" "eslint env"
        "lint_argument (lintAll env) lintFiles"] assms(2) by simp_all
  have fin: "complete env (Some i) (Inl e) =
      update_check env (Some i) ''failure'' None @ [CoreSetFailed (error_message e)]"
    by (simp add: complete_def)
  show ?thesis
    using assms(2-4) quiet ev4
    by (simp add: run_selected [OF assms(1)] check_and_lint_unfold fin
        check_updates_append failures_append find_check_quiet create_check_quiet
        update_check_events)
qed

theorem lint_throws_marks_failure_witness:
  "run_id broken_env ''4f2a9c1'' = Some 17 \<and>
   check_updates (trace (run broken_env)) = [(17, ''failure'', None)] \<and>
   failures (trace (run broken_env)) = [''Cannot read config file'']"
proof -
  have sel: "select_files broken_env = (Some (''4f2a9c1'', Some []), [ReposGetCommit ''4f2a9c1''])"
    by (simp add: broken_env_def push_env_def select_files_def push_files_def
        push_lintFiles_def extname_def EXTENSIONS_def)
  have thrown: "lint (GITHUB_WORKSPACE broken_env) (eslint broken_env)
        (lint_argument (lintAll broken_env) (Some [])) =
      (Inl (Error ''Cannot read config file''), [ExecuteOnFiles []])"
    by (simp add: broken_env_def push_env_def lint_def lint_argument_def lint_target_def
        truthy_string_def lintAll_def getInput_def trim_def)
  have rid: "run_id broken_env ''4f2a9c1'' = Some 17"
    by (simp add: broken_env_def push_env_def run_id_def find_check_def create_check_def
        truthy_string_def truthy_id_def jobName_def getInput_def trim_def)
  show ?thesis
    using lint_throws_marks_failure [OF sel thrown rid] rid by simp
qed

text \<open>
  Claim C9. With the \<^verbatim>\<open>lint-all\<close> input empty and an engine that loads, the engine
  is called once: on \<^verbatim>\<open>['src']\<close> when no list was selected, and on the selected list
  itself when there is one, also when that list is empty.
\<close>

theorem empty_selection_is_linted:
  assumes "select_files env = (Some (sha, lintFiles), ev1)"
      and "lintAll env = []"
      and "eslint env = Inr executeOnFiles"
  shows "engine_calls (trace (run env)) =
           [case lintFiles of None \<Rightarrow> [''src''] | Some fs \<Rightarrow> fs]"
  using assms(2,3)
  by (simp add: run_engine_calls [OF assms(1)] lint_argument_def lint_target_def truthy_string_def)

theorem empty_selection_is_linted_witness:
  "select_files push_env = (Some (''4f2a9c1'', Some []), [ReposGetCommit ''4f2a9c1'']) \<and>
   lintAll push_env = [] \<and>
   engine_calls (trace (run push_env)) = [[]]"
proof -
  have sel: "select_files push_env = (Some (''4f2a9c1'', Some []), [ReposGetCommit ''4f2a9c1''])"
    by (simp add: push_env_def select_files_def push_files_def
        push_lintFiles_def extname_def EXTENSIONS_def)
  have off: "lintAll push_env = []"
    by (simp add: push_env_def lintAll_def getInput_def trim_def)
  have eng: "eslint push_env = Inr (\<lambda>fs. Inr \<lparr> results = [], errorCount = 0, warningCount = 0 \<rparr>)"
    by (simp add: push_env_def)
  have "engine_calls (trace (run push_env)) = [[]]"
    using empty_selection_is_linted [OF sel off eng] by simp
  with sel off show ?thesis by blast
qed

text \<open>
  Claim C10, as the code has it. The \<^verbatim>\<open>lint-all\<close> input is tested for being
  non-empty after \<^verbatim>\<open>getInput\<close> has trimmed it. With an engine that loads, the engine
  is called once: on \<^verbatim>\<open>['src']\<close>, whatever was selected, when the input's variable
  holds a character that is not white space, as in \<^verbatim>\<open>false\<close>; and on what the
  selection gives when the variable is not set, is empty, or is white space throughout.
\<close>

theorem lint_all_nonempty:
  assumes "select_files env = (Some (sha, lintFiles), ev1)"
      and "eslint env = Inr executeOnFiles"
  shows "engine_calls (trace (run env)) =
           [if lintAll env = [] then lint_target lintFiles else [''src'']] \<and>
         (lintAll env = [] \<longleftrightarrow>
            (case INPUT_LINT_ALL env of None \<Rightarrow> True | Some s \<Rightarrow> \<forall>c \<in> set s. is_space c))"
proof -
  have calls: "engine_calls (trace (run env)) =
      [if lintAll env = [] then lint_target lintFiles else [''src'']]"
    using assms(2)
    by (simp add: run_engine_calls [OF assms(1)] lint_argument_def lint_target_def
        truthy_string_def)
  have tested: "lintAll env = [] \<longleftrightarrow>
      (case INPUT_LINT_ALL env of None \<Rightarrow> True | Some s \<Rightarrow> \<forall>c \<in> set s. is_space c)"
    unfolding lintAll_def by (rule getInput_empty_iff)
  from calls tested show ?thesis by blast
qed

theorem lint_all_nonempty_witness:
  "select_files lint_all_env = (Some (''4f2a9c1'', Some [''src/a.ts'']), [ReposGetCommit ''4f2a9c1'']) \<and>
   INPUT_LINT_ALL lint_all_env = Some ''false'' \<and>
   engine_calls (trace (run lint_all_env)) = [[''src'']]"
proof -
  have sel: "select_files lint_all_env =
      (Some (''4f2a9c1'', Some [''src/a.ts'']), [ReposGetCommit ''4f2a9c1''])"
    by (simp add: lint_all_env_def push_env_def select_files_def push_files_def
        push_lintFiles_def extname_def EXTENSIONS_def)
  have on: "INPUT_LINT_ALL lint_all_env = Some ''false''"
    by (simp add: lint_all_env_def push_env_def)
  have eng: "eslint lint_all_env = Inr (\<lambda>fs. Inr \<lparr> results = [], errorCount = 0, warningCount = 0 \<rparr>)"
    by (simp add: lint_all_env_def push_env_def)
  have letter: "\<not> (\<forall>c \<in> set ''false''. is_space c)"
    by (simp add: is_space_def)
  have calls: "engine_calls (trace (run lint_all_env)) =
      [if lintAll lint_all_env = [] then lint_target (Some [''src/a.ts'']) else [''src'']]"
    and tested: "lintAll lint_all_env = [] \<longleftrightarrow>
      (case INPUT_LINT_ALL lint_all_env of None \<Rightarrow> True | Some s \<Rightarrow> \<forall>c \<in> set s. is_space c)"
    using lint_all_nonempty [OF sel eng] by blast+
  from tested on letter have "lintAll lint_all_env \<noteq> []"
    by simp
  with calls have "engine_calls (trace (run lint_all_env)) = [[''src'']]"
    by simp
  with sel on show ?thesis by blast
qed

text \<open>
  The claim as the specification words it fails: an input of one space is not the empty
  string, and the run lints the selected file, not \<^verbatim>\<open>['src']\<close>.
\<close>

theorem lint_all_blank_counterexample:
  "INPUT_LINT_ALL blank_env = Some '' '' \<and> '' '' \<noteq> [] \<and>
   select_files blank_env = (Some (''4f2a9c1'', Some [''src/a.ts'']), [ReposGetCommit ''4f2a9c1'']) \<and>
   engine_calls (trace (run blank_env)) = [[''src/a.ts'']]"
proof -
  have sel: "select_files blank_env =
      (Some (''4f2a9c1'', Some [''src/a.ts'']), [ReposGetCommit ''4f2a9c1''])"
    by (simp add: blank_env_def lint_all_env_def push_env_def select_files_def push_files_def
        push_lintFiles_def extname_def EXTENSIONS_def)
  have raw: "INPUT_LINT_ALL blank_env = Some '' ''"
    by (simp add: blank_env_def lint_all_env_def push_env_def)
  have read: "lintAll blank_env = []"
    by (simp add: lintAll_def raw getInput_def trim_def is_space_def)
  have eng: "eslint blank_env = Inr (\<lambda>fs. Inr \<lparr> results = [], errorCount = 0, warningCount = 0 \<rparr>)"
    by (simp add: blank_env_def lint_all_env_def push_env_def)
  have "engine_calls (trace (run blank_env)) = [[''src/a.ts'']]"
    using eng read
    by (simp add: run_engine_calls [OF sel] lint_argument_def lint_target_def truthy_string_def)
  with sel raw show ?thesis by simp
qed

end
